theory Spec2Isabelle
  imports Main "HOL-Library.Sublist" "HOL-Library.List_Lexorder" "HOL-Library.Char_ord"
begin

section \<open>Strings and the pattern matches of analyze_guides.py\<close>

text \<open>
  A Python \<open>str\<close> is modelled as a \<open>string\<close>; a \<open>char\<close> stands for the code point of the
  same number, so the model covers contents whose code points are below 256. Every literal
  of the source that a check looks for is ASCII.
\<close>

text \<open>\<open>sub in s\<close> on strings: \<open>sub\<close> occurs in \<open>s\<close> as a contiguous substring.\<close>

fun str_in :: "string \<Rightarrow> string \<Rightarrow> bool" where
  "str_in sub [] = (sub = [])"
| "str_in sub (c # cs) = (prefix sub (c # cs) \<or> str_in sub cs)"

text \<open>
  \<open>s.count(sub)\<close>: the number of non-overlapping occurrences of \<open>sub\<close>, found from left to
  right; after an occurrence the scan goes on behind it. For the empty \<open>sub\<close> Python
  answers \<open>len(s) + 1\<close>.
\<close>

function str_count :: "string \<Rightarrow> string \<Rightarrow> nat" where
  "str_count [] s = length s + 1"
| "str_count (a # sub) [] = 0"
| "str_count (a # sub) (c # cs) =
     (if prefix (a # sub) (c # cs)
      then 1 + str_count (a # sub) (drop (length (a # sub)) (c # cs))
      else str_count (a # sub) cs)"
  by pat_completeness auto
termination
  by (relation "measure (\<lambda>(sub, s). length s)") auto

text \<open>
  \<open>\s\<close> of a \<open>str\<close> pattern: the code points below 256 for which \<open>str.isspace\<close> holds
  (tab, line feed, vertical tab, form feed, carriage return, the four separators
  0x1C to 0x1F, space, NEL and the no-break space).
\<close>

definition is_space :: "char \<Rightarrow> bool" where
  "is_space c = (c \<in> set [CHR 0x09, CHR 0x0A, CHR 0x0B, CHR 0x0C, CHR 0x0D,
                           CHR 0x1C, CHR 0x1D, CHR 0x1E, CHR 0x1F, CHR 0x20,
                           CHR 0x85, CHR 0xA0])"

text \<open>The character class \<open>["\']\<close>: a double or a single quote.\<close>

definition is_quote :: "char \<Rightarrow> bool" where
  "is_quote c = (c = CHR 0x22 \<or> c = CHR 0x27)"

text \<open>
  \<open>(.*?)lit\<close> under \<open>re.DOTALL\<close>: the lazy group takes the shortest text after which the
  literal \<open>lit\<close> follows, so the group is what stands before the first occurrence of
  \<open>lit\<close>; there is no match when \<open>lit\<close> does not occur.
\<close>

fun lazy_until :: "string \<Rightarrow> string \<Rightarrow> string option" where
  "lazy_until lit [] = (if lit = [] then Some [] else None)"
| "lazy_until lit (c # cs) =
     (if prefix lit (c # cs) then Some [] else map_option ((#) c) (lazy_until lit cs))"

text \<open>
  \<open>re.match(r'^---\n(.*?)\n---', content, re.DOTALL)\<close>, giving \<open>group(1)\<close>: the content
  starts with the three dashes and a line feed, and the group runs up to the first line
  feed that three dashes follow.
\<close>

definition frontmatter_match :: "string \<Rightarrow> string option" where
  "frontmatter_match content =
     (if prefix ''---\<newline>'' content
      then lazy_until ''\<newline>---'' (drop (length ''---\<newline>'') content)
      else None)"

text \<open>
  \<open>key\s*["\']([^"\']+)["\']\<close> tried at the start of \<open>s\<close>, giving \<open>group(1)\<close>. White space
  and quotes are disjoint classes, and so are quotes and non-quotes, so the greedy
  repetitions have one way to match only: all the white space, a quote, all the
  characters up to the next quote (one at least), and that quote.
\<close>

definition match_quoted_field :: "string \<Rightarrow> string \<Rightarrow> string option" where
  "match_quoted_field key s =
     (if prefix key s
      then (case dropWhile is_space (drop (length key) s) of
              [] \<Rightarrow> None
            | q # r \<Rightarrow>
                if is_quote q \<and> takeWhile (\<lambda>c. \<not> is_quote c) r \<noteq> []
                   \<and> dropWhile (\<lambda>c. \<not> is_quote c) r \<noteq> []
                then Some (takeWhile (\<lambda>c. \<not> is_quote c) r)
                else None)
      else None)"

text \<open>\<open>re.search\<close> of that pattern: the match at the leftmost position that has one.\<close>

fun search_quoted_field :: "string \<Rightarrow> string \<Rightarrow> string option" where
  "search_quoted_field key [] = match_quoted_field key []"
| "search_quoted_field key (c # cs) =
     (case match_quoted_field key (c # cs) of
        Some v \<Rightarrow> Some v
      | None \<Rightarrow> search_quoted_field key cs)"

section \<open>The compliance checker, analyze_mdx_file\<close>

text \<open>
  An exception that leaves a function is a value: \<open>UnboundLocalError v\<close> is the read of the
  local variable \<open>v\<close> before any assignment to it, \<open>ValueError\<close> is what
  \<open>Path.relative_to\<close> raises for a path outside its argument.
\<close>

datatype error = UnboundLocalError string | ValueError

type_synonym issue = string

definition expected_desc :: "string \<Rightarrow> string" where
  "expected_desc title =
     ''Follow these steps to connect '' @ title @ '' via the StackOne Hub successfully.''"

definition desc_issue :: "string \<Rightarrow> string \<Rightarrow> issue" where
  "desc_issue title desc =
     ''Incorrect description format. Expected: '' @ [CHR 0x27] @ expected_desc title
       @ [CHR 0x27] @ '', Got: '' @ [CHR 0x27] @ desc @ [CHR 0x27]"

text \<open>
  Lines 17 to 39. The result holds the issues so far and the binding of the local
  \<open>title_match\<close>: \<open>None\<close> when the name was never assigned (the frontmatter is missing),
  \<open>Some None\<close> when the search found nothing, \<open>Some (Some t)\<close> for a match whose group is
  \<open>t\<close>. The local \<open>title\<close> is assigned only in the branch of a title match, and line 37
  reads it whenever the description matches.
\<close>

definition check_frontmatter :: "string \<Rightarrow> error + (issue list \<times> string option option)" where
  "check_frontmatter content =
     (case frontmatter_match content of
        None \<Rightarrow> Inr ([''Missing frontmatter''], None)
      | Some frontmatter \<Rightarrow>
          let title_match = search_quoted_field ''title:'' frontmatter;
              issues = (case title_match of
                          None \<Rightarrow> [''Missing or incorrectly formatted title'']
                        | Some title \<Rightarrow> [])
          in (case search_quoted_field ''description:'' frontmatter of
                None \<Rightarrow> Inr (issues @ [''Missing description''], Some title_match)
              | Some desc \<Rightarrow>
                  (case title_match of
                     None \<Rightarrow> Inl (UnboundLocalError ''title'')
                   | Some title \<Rightarrow>
                       Inr (issues @
                            (if desc \<noteq> expected_desc title
                                \<and> \<not> prefix ''Follow these steps to connect'' desc
                             then [desc_issue title desc] else []),
                            Some title_match))))"

text \<open>Lines 41 to 55: the import, the Warning, the Steps and the footer component.\<close>

definition footer_import :: string where
  "footer_import =
     ''import IntegrationFooter from '' @ [CHR 0x22] @ ''/snippets/integration-footer.mdx''
       @ [CHR 0x22]"

definition check_components :: "string \<Rightarrow> issue list" where
  "check_components content =
     (if \<not> str_in footer_import content
      then [''Missing IntegrationFooter import''] else []) @
     (if \<not> str_in ''<Warning>'' content then [''Missing Warning section''] else []) @
     (if \<not> str_in ''<Steps>'' content then [''Missing Steps component''] else []) @
     (if \<not> str_in ''<IntegrationFooter />'' content
      then [''Missing IntegrationFooter component''] else [])"

definition linking_issue :: "string \<Rightarrow> issue" where
  "linking_issue provider =
     ''Missing '' @ [CHR 0x27] @ ''Linking your '' @ provider @ '' Account'' @ [CHR 0x27]
       @ '' section''"

text \<open>
  Lines 57 to 62: \<open>if title_match:\<close> reads the local \<open>title_match\<close>; a match object is
  true, \<open>None\<close> is false, and an unassigned name raises.
\<close>

definition check_linking :: "string \<Rightarrow> string option option \<Rightarrow> error + issue list" where
  "check_linking content title_match =
     (case title_match of
        None \<Rightarrow> Inl (UnboundLocalError ''title_match'')
      | Some None \<Rightarrow> Inr []
      | Some (Some provider) \<Rightarrow>
          Inr (if \<not> str_in (''## Linking your '' @ provider @ '' Account'') content
                  \<and> \<not> str_in ''## Linking your Account'' content
                  \<and> \<not> str_in ''## Connecting to StackOne'' content
                  \<and> \<not> str_in ''## Connect with StackOne'' content
                  \<and> \<not> str_in ''## Connecting with StackOne'' content
               then [linking_issue provider] else []))"

definition useful_links_issue :: issue where
  "useful_links_issue =
     ''Missing '' @ [CHR 0x27] @ ''Useful Links'' @ [CHR 0x27] @ '' section (recommended)''"

text \<open>Lines 64 to 70: the two section headings.\<close>

definition check_sections :: "string \<Rightarrow> issue list" where
  "check_sections content =
     (if \<not> str_in ''## Available data'' content
      then [''Missing '' @ [CHR 0x27] @ ''Available data'' @ [CHR 0x27] @ '' section'']
      else []) @
     (if \<not> str_in ''## Useful Links'' content then [useful_links_issue] else [])"

text \<open>
  The checker on a content that was read: the checks in the order of the source, each
  appending to the one list \<open>issues\<close>; an exception discards the list.
\<close>

definition analyze_content :: "string \<Rightarrow> error + issue list" where
  "analyze_content content =
     (case check_frontmatter content of
        Inl e \<Rightarrow> Inl e
      | Inr (issues, title_match) \<Rightarrow>
          (case check_linking content title_match of
             Inl e \<Rightarrow> Inl e
           | Inr linking \<Rightarrow>
               Inr (issues @ check_components content @ linking @ check_sections content)))"

text \<open>
  The file system is a function from a path to what \<open>open(...).read()\<close> gives there:
  \<open>Inl msg\<close> when it raises an exception whose text is \<open>msg\<close>, \<open>Inr content\<close> otherwise.
  A path is the list of its parts.
\<close>

type_synonym path = "string list"

type_synonym filesystem = "path \<Rightarrow> string + string"

definition analyze_mdx_file :: "filesystem \<Rightarrow> path \<Rightarrow> error + issue list" where
  "analyze_mdx_file fs file_path =
     (case fs file_path of
        Inl e \<Rightarrow> Inr [''Could not read file: '' @ e]
      | Inr content \<Rightarrow> analyze_content content)"

section \<open>The classifier, is_simple_connect_guide\<close>

definition simple_patterns :: "string list" where
  "simple_patterns =
     [''Click Connect Account'',
      ''In the modal, click the Connect button'',
      ''Click the Connect button'']"

definition auth_keywords :: "string list" where
  "auth_keywords =
     [''API Key'', ''Client ID'', ''Client Secret'', ''OAuth'', ''Token'', ''Credentials'']"

definition is_simple_content :: "string \<Rightarrow> bool" where
  "is_simple_content content =
     (if str_count ''<Step'' content > 3 then False
      else if list_ex (\<lambda>pattern. str_in pattern content) simple_patterns
      then (if \<not> list_ex (\<lambda>keyword. str_in keyword content) auth_keywords
            then True else False)
      else False)"

text \<open>The bare \<open>except\<close> around the read answers \<open>False\<close> for a file that cannot be read.\<close>

definition is_simple_connect_guide :: "filesystem \<Rightarrow> path \<Rightarrow> bool" where
  "is_simple_connect_guide fs file_path =
     (case fs file_path of
        Inl e \<Rightarrow> False
      | Inr content \<Rightarrow> is_simple_content content)"

section \<open>The run, main\<close>

definition repo_root :: path where
  "repo_root = [''/'', ''home'', ''runner'', ''work'', ''hub-docs'', ''hub-docs'']"

definition base_path :: path where
  "base_path = repo_root @ [''connection-guides'']"

text \<open>
  \<open>os.walk\<close> is the list of the directories it visits, each with the names of its files.
  Lines 104 to 109 keep a file whose name ends with \<open>.mdx\<close> and is not \<open>introduction.mdx\<close>.
\<close>

definition is_candidate :: "string \<Rightarrow> bool" where
  "is_candidate file = (suffix ''.mdx'' file \<and> file \<noteq> ''introduction.mdx'')"

definition collect_mdx_files :: "(path \<times> string list) list \<Rightarrow> path list" where
  "collect_mdx_files walk =
     concat (map (\<lambda>(root, files). map (\<lambda>file. root @ [file]) (filter is_candidate files)) walk)"

definition relative_to :: "path \<Rightarrow> path \<Rightarrow> error + path" where
  "relative_to p other = (if prefix other p then Inr (drop (length other) p) else Inl ValueError)"

text \<open>\<open>str\<close> of a relative path: its parts joined with a slash.\<close>

fun path_str :: "path \<Rightarrow> string" where
  "path_str [] = ''.''"
| "path_str [x] = x"
| "path_str (x # y # ys) = x @ ''/'' @ path_str (y # ys)"

record report =
  simple_connect_guides :: "string list"
  compliant_files :: "string list"
  non_compliant_files :: "(string \<times> issue list) list"

definition empty_report :: report where
  "empty_report = \<lparr>simple_connect_guides = [], compliant_files = [], non_compliant_files = []\<rparr>"

text \<open>
  Lines 117 to 134, the loop over the sorted paths. Nothing in \<open>main\<close> catches an
  exception of the checker: it ends the run, and no report is printed.
\<close>

fun classify_files :: "filesystem \<Rightarrow> path list \<Rightarrow> report \<Rightarrow> error + report" where
  "classify_files fs [] rep = Inr rep"
| "classify_files fs (file_path # rest) rep =
     (case relative_to file_path repo_root of
        Inl e \<Rightarrow> Inl e
      | Inr relative_path \<Rightarrow>
          if is_simple_connect_guide fs file_path
          then classify_files fs rest
                 (rep\<lparr>simple_connect_guides :=
                        simple_connect_guides rep @ [path_str relative_path]\<rparr>)
          else (case analyze_mdx_file fs file_path of
                  Inl e \<Rightarrow> Inl e
                | Inr issues \<Rightarrow>
                    if issues = []
                    then classify_files fs rest
                           (rep\<lparr>compliant_files :=
                                  compliant_files rep @ [path_str relative_path]\<rparr>)
                    else classify_files fs rest
                           (rep\<lparr>non_compliant_files :=
                                  non_compliant_files rep @ [(path_str relative_path, issues)]\<rparr>)))"

text \<open>The report that \<open>main\<close> prints, or the exception that ends it.\<close>

definition main :: "filesystem \<Rightarrow> (path \<times> string list) list \<Rightarrow> error + report" where
  "main fs walk = classify_files fs (sort (collect_mdx_files walk)) empty_report"

section \<open>Occurrences of a substring\<close>

text \<open>
  What the claims call the occurrences of a token: the positions of \<open>s\<close> at which \<open>sub\<close>
  starts. \<open>occ_count\<close> counts them by one pass over \<open>s\<close>, overlapping ones included.
\<close>

definition occurrences :: "string \<Rightarrow> string \<Rightarrow> nat set" where
  "occurrences sub s = {i. i \<le> length s \<and> prefix sub (drop i s)}"

fun occ_count :: "string \<Rightarrow> string \<Rightarrow> nat" where
  "occ_count sub [] = (if sub = [] then 1 else 0)"
| "occ_count sub (c # cs) = (if prefix sub (c # cs) then 1 else 0) + occ_count sub cs"

section \<open>Example documents\<close>

text \<open>A frontmatter with a description and no title.\<close>

definition doc_no_title :: string where
  "doc_no_title =
     ''---\<newline>description: '' @ [CHR 0x22] @ ''x'' @ [CHR 0x22] @ ''\<newline>---''"





text \<open>A short guide with the wrapper tag and three step tags.\<close>

definition doc_four_steps :: string where
  "doc_four_steps =
     ''<Steps><Step>Click Connect Account</Step><Step>Wait</Step><Step>Done</Step></Steps>''"

text \<open>The file system with the same content at every path.\<close>

definition fs_everywhere :: "string \<Rightarrow> filesystem" where
  "fs_everywhere content = (\<lambda>p. Inr content)"

text \<open>A file system in which \<open>a.mdx\<close> cannot be read and every other file is a short guide.\<close>

definition fs_unreadable :: filesystem where
  "fs_unreadable =
     (\<lambda>p. if p = base_path @ [''a.mdx''] then Inl ''boom'' else Inr ''Click Connect Account'')"

section \<open>Substring test and count against their specifications\<close>

lemma str_in_sublist: "str_in sub s = sublist sub s"
  by (induction s) (simp_all add: sublist_Cons_right)

lemma occurrences_Nil: "occurrences sub [] = (if sub = [] then {0} else {})"
  by (auto simp: occurrences_def)

lemma occurrences_Cons:
  "occurrences sub (c # cs) =
     (if prefix sub (c # cs) then {0} else {}) \<union> Suc ` occurrences sub cs"
proof -
  have "i \<in> occurrences sub (c # cs) \<longleftrightarrow>
        i \<in> (if prefix sub (c # cs) then {0} else {}) \<union> Suc ` occurrences sub cs" for i
    by (cases i) (auto simp: occurrences_def image_iff)
  then show ?thesis by blast
qed

lemma finite_occurrences: "finite (occurrences sub s)"
  by (simp add: occurrences_def)

lemma card_occurrences: "card (occurrences sub s) = occ_count sub s"
proof (induction s)
  case Nil
  show ?case by (simp add: occurrences_Nil)
next
  case (Cons c cs)
  have fin: "finite (Suc ` occurrences sub cs)"
    by (simp add: finite_occurrences)
  have notin: "0 \<notin> Suc ` occurrences sub cs" by auto
  have img: "card (Suc ` occurrences sub cs) = card (occurrences sub cs)"
    by (simp add: card_image)
  show ?case
    using Cons.IH fin notin img by (simp add: occurrences_Cons)
qed

text \<open>
  No proper suffix of \<open><Step\<close> starts with \<open><\<close>, so two occurrences never overlap and the
  left-to-right count of \<open>str.count\<close> meets every occurrence.
\<close>

lemma str_count_Step: "str_count ''<Step'' s = occ_count ''<Step'' s"
proof (induction "''<Step''" s rule: str_count.induct)
  case 2
  show ?case by simp
next
  case (3 c cs)
  show ?case
  proof (cases "prefix ''<Step'' (c # cs)")
    case True
    then obtain r where r: "c # cs = ''<Step'' @ r"
      by (auto simp: prefix_def)
    have "str_count ''<Step'' (c # cs) = 1 + str_count ''<Step'' r"
      using r by simp
    also have "\<dots> = 1 + occ_count ''<Step'' r"
      using 3(1) [OF True] r by simp
    also have "\<dots> = occ_count ''<Step'' (c # cs)"
      unfolding r by simp
    finally show ?thesis .
  next
    case False
    then show ?thesis using 3(2) by auto
  qed
qed

section \<open>Where the checker raises\<close>

lemma analyze_content_no_frontmatter:
  "frontmatter_match content = None \<Longrightarrow>
   analyze_content content = Inl (UnboundLocalError ''title_match'')"
  by (simp add: analyze_content_def check_frontmatter_def check_linking_def)

lemma analyze_content_title_unbound:
  "frontmatter_match content = Some fm \<Longrightarrow> search_quoted_field ''title:'' fm = None \<Longrightarrow>
   search_quoted_field ''description:'' fm = Some desc \<Longrightarrow>
   analyze_content content = Inl (UnboundLocalError ''title'')"
  by (simp add: analyze_content_def check_frontmatter_def)

text \<open>
  C1. A content with no frontmatter block should give a list of issues that starts with
  "Missing frontmatter" and holds no title or description issue. On the content
  \<open># Guide\<close> the frontmatter pattern does not match, the issue is appended, and line 58
  then reads \<open>title_match\<close>, which only the branch of a present frontmatter assigns: the
  checker raises and returns no list.
\<close>

theorem missing_frontmatter_raises:
  "frontmatter_match ''# Guide'' = None \<and>
   analyze_content ''# Guide'' = Inl (UnboundLocalError ''title_match'')"
  by code_simp

text \<open>
  C2. A frontmatter that has a quoted description and no quoted title should give the
  issue "Missing or incorrectly formatted title" and the results of all later checks.
  On \<open>doc_no_title\<close> the title search finds nothing, so \<open>title\<close> is never assigned, and
  line 37 builds the expected description from it: the checker raises and returns no
  list.
\<close>

theorem missing_title_raises:
  "frontmatter_match doc_no_title = Some (''description: '' @ [CHR 0x22] @ ''x'' @ [CHR 0x22]) \<and>
   search_quoted_field ''title:'' (''description: '' @ [CHR 0x22] @ ''x'' @ [CHR 0x22]) = None \<and>
   search_quoted_field ''description:'' (''description: '' @ [CHR 0x22] @ ''x'' @ [CHR 0x22])
     = Some ''x'' \<and>
   analyze_content doc_no_title = Inl (UnboundLocalError ''title'')"
  by code_simp

text \<open>
  A run of the loop that returns has put the files, in their order, into the three
  buckets by three conditions of which every file meets exactly one: the classifier
  says simple; it does not and the checker returns no issue; it does not and the checker
  returns some issue.
\<close>

lemma classify_files_buckets:
  "classify_files fs ps rep = Inr rep' \<Longrightarrow>
   simple_connect_guides rep' =
     simple_connect_guides rep @
       map (\<lambda>p. path_str (drop (length repo_root) p)) (filter (is_simple_connect_guide fs) ps) \<and>
   compliant_files rep' =
     compliant_files rep @
       map (\<lambda>p. path_str (drop (length repo_root) p))
         (filter (\<lambda>p. \<not> is_simple_connect_guide fs p \<and> analyze_mdx_file fs p = Inr []) ps) \<and>
   map fst (non_compliant_files rep') =
     map fst (non_compliant_files rep) @
       map (\<lambda>p. path_str (drop (length repo_root) p))
         (filter (\<lambda>p. \<not> is_simple_connect_guide fs p \<and> analyze_mdx_file fs p \<noteq> Inr []) ps)"
proof (induction ps arbitrary: rep)
  case Nil
  then show ?case by simp
next
  case (Cons p ps)
  show ?case
  proof (cases "is_simple_connect_guide fs p")
    case True
    with Cons.prems have
      "classify_files fs ps
         (rep\<lparr>simple_connect_guides :=
                simple_connect_guides rep @ [path_str (drop (length repo_root) p)]\<rparr>) = Inr rep'"
      by (simp add: relative_to_def split: if_splits)
    from Cons.IH [OF this] True show ?thesis by simp
  next
    case False
    with Cons.prems obtain issues where a: "analyze_mdx_file fs p = Inr issues"
      by (auto simp: relative_to_def split: if_splits sum.splits)
    show ?thesis
    proof (cases "issues = []")
      case True
      with Cons.prems False a have
        "classify_files fs ps
           (rep\<lparr>compliant_files :=
                  compliant_files rep @ [path_str (drop (length repo_root) p)]\<rparr>) = Inr rep'"
        by (simp add: relative_to_def split: if_splits)
      from Cons.IH [OF this] False a True show ?thesis by simp
    next
      case nonempty: False
      with Cons.prems False a have
        "classify_files fs ps
           (rep\<lparr>non_compliant_files :=
                  non_compliant_files rep @ [(path_str (drop (length repo_root) p), issues)]\<rparr>)
           = Inr rep'"
        by (simp add: relative_to_def split: if_splits)
      from Cons.IH [OF this] False a nonempty show ?thesis by simp
    qed
  qed
qed

text \<open>
  C3. Every candidate file should end in exactly one of the three buckets. In a tree
  whose one candidate \<open>a.mdx\<close> has no frontmatter and is not a short guide, the checker
  raises, \<open>main\<close> does not catch it, and the run ends with no bucket filled.
\<close>

theorem run_aborts_on_missing_frontmatter:
  "collect_mdx_files [(base_path, [''a.mdx''])] = [base_path @ [''a.mdx'']] \<and>
   \<not> is_simple_connect_guide (fs_everywhere ''# Guide'') (base_path @ [''a.mdx'']) \<and>
   main (fs_everywhere ''# Guide'') [(base_path, [''a.mdx''])]
     = Inl (UnboundLocalError ''title_match'')"
  by code_simp

section \<open>What the checker reports\<close>






section \<open>Files that cannot be read\<close>

text \<open>
  C7. For a candidate file whose read raises, the classifier answers \<open>False\<close>, the checker
  returns the one issue "Could not read file: " with the text of the exception, the loop
  appends the file with that issue to the non-compliant bucket and goes on with the
  remaining files.
\<close>

theorem unreadable_file_is_non_compliant:
  assumes "fs file_path = Inl msg" and "prefix repo_root file_path"
  shows "analyze_mdx_file fs file_path = Inr [''Could not read file: '' @ msg] \<and>
         classify_files fs (file_path # rest) rep =
           classify_files fs rest
             (rep\<lparr>non_compliant_files :=
                    non_compliant_files rep @
                      [(path_str (drop (length repo_root) file_path),
                        [''Could not read file: '' @ msg])]\<rparr>)"
  using assms
  by (simp add: analyze_mdx_file_def is_simple_connect_guide_def relative_to_def)

theorem unreadable_file_is_non_compliant_witness:
  "analyze_mdx_file fs_unreadable (base_path @ [''a.mdx'']) = Inr [''Could not read file: boom''] \<and>
   main fs_unreadable [(base_path, [''b.mdx'', ''a.mdx''])] =
     Inr \<lparr>simple_connect_guides = [''connection-guides/b.mdx''], compliant_files = [],
          non_compliant_files =
            [(''connection-guides/a.mdx'', [''Could not read file: boom''])]\<rparr>"
proof -
  have h1: "fs_unreadable (base_path @ [''a.mdx'']) = Inl ''boom''"
    by (simp add: fs_unreadable_def)
  have h2: "prefix repo_root (base_path @ [''a.mdx''])"
    by (simp add: base_path_def)
  have srt: "sort (collect_mdx_files [(base_path, [''b.mdx'', ''a.mdx''])])
               = [base_path @ [''a.mdx''], base_path @ [''b.mdx'']]"
    by code_simp
  have rest: "classify_files fs_unreadable [base_path @ [''b.mdx'']]
           (empty_report\<lparr>non_compliant_files := non_compliant_files empty_report @
               [(path_str (drop (length repo_root) (base_path @ [''a.mdx''])),
                 [''Could not read file: '' @ ''boom''])]\<rparr>)
        = Inr \<lparr>simple_connect_guides = [''connection-guides/b.mdx''], compliant_files = [],
          non_compliant_files =
            [(''connection-guides/a.mdx'', [''Could not read file: boom''])]\<rparr>"
    by code_simp
  show ?thesis
    using unreadable_file_is_non_compliant [of fs_unreadable "base_path @ [''a.mdx'']" "''boom''"
        "[base_path @ [''b.mdx'']]" empty_report, OF h1 h2] srt rest
    by (simp add: main_def)
qed

section \<open>The classifier's conditions\<close>

text \<open>
  C4. For a file that can be read, the classifier answers simple exactly when \<open><Step\<close>
  occurs at most three times, one of the three short-guide phrases occurs, and none of
  the six authentication keywords occurs.
\<close>

theorem is_simple_connect_guide_iff:
  assumes "fs file_path = Inr content"
  shows "is_simple_connect_guide fs file_path \<longleftrightarrow>
     card (occurrences ''<Step'' content) \<le> 3 \<and>
     (sublist ''Click Connect Account'' content
        \<or> sublist ''In the modal, click the Connect button'' content
        \<or> sublist ''Click the Connect button'' content) \<and>
     \<not> (sublist ''API Key'' content \<or> sublist ''Client ID'' content
          \<or> sublist ''Client Secret'' content \<or> sublist ''OAuth'' content
          \<or> sublist ''Token'' content \<or> sublist ''Credentials'' content)"
proof -
  have n: "str_count ''<Step'' content = card (occurrences ''<Step'' content)"
    by (simp add: str_count_Step card_occurrences)
  show ?thesis
    using assms n
    by (auto simp: is_simple_connect_guide_def is_simple_content_def simple_patterns_def
          auth_keywords_def str_in_sublist)
qed

theorem is_simple_connect_guide_iff_witness:
  "is_simple_connect_guide (fs_everywhere ''Click Connect Account'') [''a.mdx''] \<and>
   card (occurrences ''<Step'' ''Click Connect Account'') \<le> 3 \<and>
   sublist ''Click Connect Account'' ''Click Connect Account'' \<and>
   \<not> sublist ''OAuth'' ''Click Connect Account''"
proof -
  have h: "fs_everywhere ''Click Connect Account'' [''a.mdx''] = Inr ''Click Connect Account''"
    by (simp add: fs_everywhere_def)
  have s: "is_simple_connect_guide (fs_everywhere ''Click Connect Account'') [''a.mdx'']"
    by code_simp
  show ?thesis
    using s is_simple_connect_guide_iff
              [of "fs_everywhere ''Click Connect Account''" "[''a.mdx'']"
                  "''Click Connect Account''", OF h]
    by blast
qed

lemma occurrences_Steps_Step:
  "occurrences ''<Steps>'' s \<union> occurrences ''<Step>'' s \<subseteq> occurrences ''<Step'' s"
  by (auto simp: occurrences_def prefix_def)

lemma occurrences_Steps_Step_disjoint:
  "occurrences ''<Steps>'' s \<inter> occurrences ''<Step>'' s = {}"
  by (auto simp: occurrences_def prefix_def)

text \<open>
  C9. The count of step markers is the number of occurrences of \<open><Step\<close>, and an occurrence
  of the wrapper \<open><Steps>\<close> is one of them: a content with one \<open><Steps>\<close> and three \<open><Step>\<close>
  has a count of four at least and is not simple, whatever phrases and keywords it holds.
\<close>

theorem steps_wrapper_is_counted:
  assumes "card (occurrences ''<Steps>'' content) = 1"
    and "card (occurrences ''<Step>'' content) = 3"
  shows "str_count ''<Step'' content = card (occurrences ''<Step'' content) \<and>
         4 \<le> str_count ''<Step'' content \<and> \<not> is_simple_content content"
proof -
  have n: "str_count ''<Step'' content = card (occurrences ''<Step'' content)"
    by (simp add: str_count_Step card_occurrences)
  have "card (occurrences ''<Steps>'' content \<union> occurrences ''<Step>'' content)
          = card (occurrences ''<Steps>'' content) + card (occurrences ''<Step>'' content)"
    by (rule card_Un_disjoint) (simp_all add: finite_occurrences occurrences_Steps_Step_disjoint)
  moreover have "card (occurrences ''<Steps>'' content \<union> occurrences ''<Step>'' content)
          \<le> card (occurrences ''<Step'' content)"
    by (rule card_mono [OF finite_occurrences occurrences_Steps_Step])
  ultimately have "4 \<le> card (occurrences ''<Step'' content)"
    using assms by simp
  then show ?thesis
    using n by (simp add: is_simple_content_def)
qed

theorem steps_wrapper_is_counted_witness:
  "card (occurrences ''<Steps>'' doc_four_steps) = 1 \<and>
   card (occurrences ''<Step>'' doc_four_steps) = 3 \<and>
   sublist ''Click Connect Account'' doc_four_steps \<and>
   list_all (\<lambda>keyword. \<not> sublist keyword doc_four_steps) auth_keywords \<and>
   str_count ''<Step'' doc_four_steps = 4 \<and>
   \<not> is_simple_content doc_four_steps"
proof -
  have h1: "card (occurrences ''<Steps>'' doc_four_steps) = 1"
    unfolding card_occurrences by code_simp
  have h2: "card (occurrences ''<Step>'' doc_four_steps) = 3"
    unfolding card_occurrences by code_simp
  have p: "sublist ''Click Connect Account'' doc_four_steps"
    by code_simp
  have k: "list_all (\<lambda>keyword. \<not> sublist keyword doc_four_steps) auth_keywords"
    by code_simp
  have c: "str_count ''<Step'' doc_four_steps = 4"
    by code_simp
  show ?thesis
    using h1 h2 p k c steps_wrapper_is_counted [OF h1 h2] by blast
qed

text \<open>
  C10. The keywords are looked for as they are written, upper and lower case
  distinguished: a content with a short-guide phrase, no step marker, and the words
  \<open>token\<close> and \<open>API key\<close> in lower case is classified simple.
\<close>

theorem keyword_match_is_case_sensitive:
  "\<exists>content. sublist ''Click Connect Account'' content \<and> str_count ''<Step'' content \<le> 3
     \<and> sublist ''token'' content \<and> sublist ''API key'' content \<and> is_simple_content content"
  by (rule exI [of _ "''Click Connect Account, then paste your API key or token''"]) code_simp

end
